theory Spec2Isabelle
  imports Complex_Main "HOL-Library.Word"
begin

section \<open>IconForge: a shallow embedding of the application script\<close>

text \<open>
  The repository holds two copies of the application script: \<^verbatim>\<open>src/script.js\<close> and
  \<^verbatim>\<open>src/unnamed/part_000\<close> (the copy with the font controls).  Where the two agree a
  function is embedded once; where they differ the embedding of \<^verbatim>\<open>src/script.js\<close>
  carries the suffix \<open>_script\<close>.

  JavaScript numbers are modelled by \<open>int\<close> where the code only ever holds integers and
  by \<open>rat\<close> (exact arithmetic) for measured lengths.  A value that may be \<^verbatim>\<open>NaN\<close> or
  \<^verbatim>\<open>undefined\<close> is an \<open>option\<close>.  The text typed by the user is a list of UTF-16 code
  units, so that \<open>length\<close> is JavaScript's \<^verbatim>\<open>.length\<close>.

  A handler takes the browser (\<open>host\<close>), the form controls (\<open>dom\<close>) and the application
  object (\<open>app\<close>) and returns what it changes.  Each handler is one uninterrupted run:
  the \<^verbatim>\<open>await\<close> points are passed through in order.  The progress overlay, the preview
  grid and the record of the upload kept by \<^verbatim>\<open>storeImageData\<close> are left out; no
  handler modelled here reads them.  A call into the browser returns unless the host
  record gives it a failing result (\<open>readFile\<close>, \<open>fetchBlob\<close>).
\<close>

subsection \<open>Strings and numbers of the host language\<close>

type_synonym jschar = "16 word"
type_synonym jsstring = "jschar list"

text \<open>ECMAScript \<^verbatim>\<open>WhiteSpace\<close> and \<^verbatim>\<open>LineTerminator\<close> code units, as stripped by
  \<^verbatim>\<open>String.prototype.trim\<close> and skipped by \<^verbatim>\<open>parseInt\<close>.\<close>

definition isWhiteSpace :: "jschar \<Rightarrow> bool" where
  "isWhiteSpace c =
     (c \<in> set [0x9, 0xA, 0xB, 0xC, 0xD, 0x20, 0xA0, 0x1680, 0x2028, 0x2029,
                0x202F, 0x205F, 0x3000, 0xFEFF]
      \<or> (0x2000 \<le> c \<and> c \<le> 0x200A))"

definition trim :: "jsstring \<Rightarrow> jsstring" where
  "trim s = rev (dropWhile isWhiteSpace (rev (dropWhile isWhiteSpace s)))"

definition isDigit :: "jschar \<Rightarrow> bool" where
  "isDigit c = (0x30 \<le> c \<and> c \<le> 0x39)"

text \<open>\<^verbatim>\<open>parseInt(s, 10)\<close>: leading white space, an optional sign, the longest run of
  decimal digits; \<open>None\<close> is \<^verbatim>\<open>NaN\<close>.\<close>

definition parseInt10 :: "jsstring \<Rightarrow> int option" where
  "parseInt10 str =
     (let s = dropWhile isWhiteSpace str;
          sign = (case s of c # _ \<Rightarrow> if c = 0x2D then - 1 else (1::int) | [] \<Rightarrow> 1);
          s' = (case s of c # r \<Rightarrow> if c = 0x2D \<or> c = 0x2B then r else s | [] \<Rightarrow> []);
          ds = takeWhile isDigit s'
      in if ds = [] then None
         else Some (sign * foldl (\<lambda>acc d. acc * 10 + (uint d - 48)) 0 ds))"

text \<open>\<^verbatim>\<open>Math.round\<close>: the nearest integer, a tie going up.\<close>

definition js_round :: "rat \<Rightarrow> int" where
  "js_round x = \<lfloor>x + 1 / 2\<rfloor>"

text \<open>The decimal numeral a template literal prints for an integer.\<close>

fun string_of_nat :: "nat \<Rightarrow> string" where
  "string_of_nat n =
     (if n < 10 then [''0123456789'' ! n]
      else string_of_nat (n div 10) @ [''0123456789'' ! (n mod 10)])"

declare string_of_nat.simps [simp del]

definition string_of_int :: "int \<Rightarrow> string" where
  "string_of_int i = (if i < 0 then CHR ''-'' # string_of_nat (nat (- i)) else string_of_nat (nat i))"

text \<open>\<^verbatim>\<open>a?.value || d\<close>: the default replaces a missing element and an empty value.\<close>

definition orDefault :: "'a list option \<Rightarrow> 'a list \<Rightarrow> 'a list" where
  "orDefault v d = (case v of None \<Rightarrow> d | Some s \<Rightarrow> if s = [] then d else s)"

subsection \<open>The drawing surface\<close>

record TextMetrics =
  width :: rat
  actualBoundingBoxAscent :: "rat option"
  actualBoundingBoxDescent :: "rat option"

text \<open>The value assigned to \<^verbatim>\<open>ctx.font\<close>, kept in its four parts.\<close>

record font =
  fstyle :: string
  fweight :: "int option"
  fpx :: int
  ffamily :: string

text \<open>\<^verbatim>\<open>ctx.measureText(text)\<close> under the font last assigned.\<close>

type_synonym ctx = "font \<Rightarrow> jsstring \<Rightarrow> TextMetrics"

record raster =
  background :: string
  foreground :: string
  rfont :: font
  rtext :: jsstring
  atX :: int
  atY :: int

datatype image = FileImage string | CanvasImage raster

subsection \<open>Application state, page and host\<close>

record GeneratedIcon =
  isize :: int
  iformat :: string
  dataUrl :: string
  itype :: string
  itimestamp :: int
  filename :: string

record settings =
  selectedSizes :: "int list option"
  outputFormat :: "string option"
  stimestamp :: int

type_synonym settingsStore = "string \<rightharpoonup> settings"

record app =
  currentImage :: "image option"
  generatedIcons :: "GeneratedIcon list"
  db :: "settingsStore option"
  notifications :: "(string \<times> string) list"

text \<open>The form controls the handlers read and write.  A checkbox is its parsed value and
  its checked flag; a radio button is its value and its checked flag.\<close>

record dom =
  iconText :: jsstring
  textColor :: string
  bgColor :: string
  fontFamily :: "string option"
  fontStyle :: "string option"
  fontWeight :: "jsstring option"
  sizeCheckboxes :: "(int \<times> bool) list"
  formatRadios :: "(string \<times> bool) list"

record jsfile =
  ftype :: string
  fsize :: nat
  fname :: string

text \<open>The browser: text measurement, scaling and encoding a picture to a data URL, the
  clock, decoding an uploaded file, fetching a data URL, and whether the compression
  library is loaded.\<close>

record host =
  measureText :: ctx
  toDataURL :: "image \<Rightarrow> int \<Rightarrow> string \<Rightarrow> rat \<Rightarrow> string"
  dateNow :: "nat \<Rightarrow> int"
  isoNow :: string
  readFile :: "jsfile \<Rightarrow> string option"
  fetchBlob :: "string \<Rightarrow> string option"
  jszipLoaded :: bool

subsection \<open>Notifications\<close>

definition showNotification :: "app \<Rightarrow> string \<Rightarrow> string \<Rightarrow> app" where
  "showNotification a message ntype = a\<lparr>notifications := notifications a @ [(message, ntype)]\<rparr>"

definition showSuccess :: "app \<Rightarrow> string \<Rightarrow> app" where
  "showSuccess a message = showNotification a message ''success''"

definition showError :: "app \<Rightarrow> string \<Rightarrow> app" where
  "showError a message = showNotification a message ''error''"

definition showFeedback :: "app \<Rightarrow> string \<Rightarrow> app" where
  "showFeedback a message = showNotification a message ''info''"

subsection \<open>Fitting the text: \<^verbatim>\<open>fitTextToCanvas\<close> and \<^verbatim>\<open>buildCanvasFont\<close>\<close>

definition buildCanvasFont :: "string \<Rightarrow> int option \<Rightarrow> int \<Rightarrow> string \<Rightarrow> font" where
  "buildCanvasFont style weight sizePx family =
     \<lparr>fstyle = style, fweight = weight, fpx = max 12 sizePx, ffamily = family\<rparr>"

text \<open>The body of one probe: set the font at size \<open>mid\<close>, measure, compare.\<close>

definition probeFits ::
  "ctx \<Rightarrow> jsstring \<Rightarrow> rat \<Rightarrow> rat \<Rightarrow> string \<Rightarrow> int option \<Rightarrow> string \<Rightarrow> int \<Rightarrow> bool" where
  "probeFits c text maxW maxH style weight family mid =
     (let metrics = c \<lparr>fstyle = style, fweight = weight, fpx = mid, ffamily = family\<rparr> text;
          w = width metrics;
          ascent = (case actualBoundingBoxAscent metrics of
                      Some a \<Rightarrow> a | None \<Rightarrow> of_int mid * (8 / 10));
          descent = (case actualBoundingBoxDescent metrics of
                      Some d \<Rightarrow> d | None \<Rightarrow> of_int mid * (2 / 10));
          height = ascent + descent
      in w \<le> maxW \<and> height \<le> maxH)"

record fit_state =
  lo :: int
  hi :: int
  best :: int

definition probe :: "fit_state \<Rightarrow> int" where
  "probe s = (lo s + hi s) div 2"

definition fitStep :: "(int \<Rightarrow> bool) \<Rightarrow> fit_state \<Rightarrow> fit_state" where
  "fitStep ok s =
     (let mid = probe s
      in if ok mid then s\<lparr>lo := mid + 1, best := mid\<rparr> else s\<lparr>hi := mid - 1\<rparr>)"

text \<open>The \<^verbatim>\<open>for\<close> loop, by the number of iterations still to run, and the sizes it
  probes on the way.\<close>

fun fitLoop :: "(int \<Rightarrow> bool) \<Rightarrow> nat \<Rightarrow> fit_state \<Rightarrow> fit_state" where
  "fitLoop ok 0 s = s"
| "fitLoop ok (Suc n) s = fitLoop ok n (fitStep ok s)"


definition fitInit :: fit_state where
  "fitInit = \<lparr>lo = 12, hi = 420, best = 12\<rparr>"

definition fitTextToCanvas ::
  "ctx \<Rightarrow> jsstring \<Rightarrow> rat \<Rightarrow> rat \<Rightarrow> string \<Rightarrow> int option \<Rightarrow> string \<Rightarrow> int" where
  "fitTextToCanvas c text maxW maxH style weight family =
     best (fitLoop (probeFits c text maxW maxH style weight family) 14 fitInit)"



subsection \<open>The multi-size emitter: \<^verbatim>\<open>generateIcons\<close>\<close>

definition getSelectedSizes :: "dom \<Rightarrow> int list" where
  "getSelectedSizes d = map fst (filter snd (sizeCheckboxes d))"

definition getSelectedFormat :: "dom \<Rightarrow> string" where
  "getSelectedFormat d = (case find snd (formatRadios d) of Some radio \<Rightarrow> fst radio | None \<Rightarrow> ''png'')"

text \<open>The \<^verbatim>\<open>switch\<close> on the format: the MIME type and the quality handed to the encoder.\<close>

definition mimeType :: "string \<Rightarrow> string" where
  "mimeType fmt =
     (if fmt = ''jpeg'' then ''image/jpeg'' else if fmt = ''webp'' then ''image/webp''
      else ''image/png'')"

definition quality :: "string \<Rightarrow> rat" where
  "quality fmt = (if fmt = ''jpeg'' then 9 / 10 else if fmt = ''webp'' then 9 / 10 else 1)"

definition iconFilename :: "int \<Rightarrow> string \<Rightarrow> string" where
  "iconFilename sz fmt = ''icon-'' @ string_of_int sz @ ''x'' @ string_of_int sz @ ''.'' @ fmt"

definition makeIcon :: "host \<Rightarrow> image \<Rightarrow> string \<Rightarrow> string \<Rightarrow> nat \<Rightarrow> int \<Rightarrow> GeneratedIcon" where
  "makeIcon h sourceImage ty fmt i sz =
     \<lparr>isize = sz, iformat = fmt,
      dataUrl = toDataURL h sourceImage sz (mimeType fmt) (quality fmt),
      itype = ty, itimestamp = dateNow h i, filename = iconFilename sz fmt\<rparr>"

text \<open>The loop over \<^verbatim>\<open>selectedSizes\<close>: \<open>i\<close> is the index reached, the list holds the sizes
  from \<open>i\<close> on, \<open>icons\<close> is \<^verbatim>\<open>this.generatedIcons\<close>, extended by \<^verbatim>\<open>push\<close>.\<close>

fun emitIcons ::
  "host \<Rightarrow> image \<Rightarrow> string \<Rightarrow> string \<Rightarrow> nat \<Rightarrow> int list \<Rightarrow> GeneratedIcon list \<Rightarrow> GeneratedIcon list" where
  "emitIcons h sourceImage ty fmt i [] icons = icons"
| "emitIcons h sourceImage ty fmt i (sz # rest) icons =
     emitIcons h sourceImage ty fmt (Suc i) rest (icons @ [makeIcon h sourceImage ty fmt i sz])"

definition generateIcons :: "host \<Rightarrow> dom \<Rightarrow> app \<Rightarrow> image \<Rightarrow> string \<Rightarrow> app" where
  "generateIcons h d a sourceImage ty =
     (let selected = getSelectedSizes d;
          fmt = getSelectedFormat d;
          a0 = a\<lparr>generatedIcons := []\<rparr>
      in a0\<lparr>generatedIcons := emitIcons h sourceImage ty fmt 0 selected (generatedIcons a0)\<rparr>)"

subsection \<open>Text input: \<^verbatim>\<open>generateTextIcon\<close>\<close>

text \<open>Line 370 of \<^verbatim>\<open>part_000\<close>; \<^verbatim>\<open>Math.max\<close> and \<^verbatim>\<open>Math.min\<close> pass \<^verbatim>\<open>NaN\<close> on.\<close>

definition clampFontWeight :: "int option \<Rightarrow> int option" where
  "clampFontWeight fw =
     map_option (\<lambda>w. min 900 (max 100 (js_round (of_int w / 100) * 100))) fw"

definition generateTextIcon :: "host \<Rightarrow> dom \<Rightarrow> app \<Rightarrow> app" where
  "generateTextIcon h d a =
     (let text = trim (iconText d);
          fg = textColor d;
          bg = bgColor d;
          family = orDefault (fontFamily d) ''Inter, Arial, sans-serif'';
          style = orDefault (fontStyle d) ''normal'';
          weight = clampFontWeight (parseInt10 (orDefault (fontWeight d) [0x37, 0x30, 0x30]))
      in if text = [] then showError a ''Please enter text for the icon''
         else if length text > 3 then showError a ''Text must be 3 characters or less''
         else
           (let baseSize = 512;
                padding = 48;
                fittedPx = fitTextToCanvas (measureText h) text
                             (of_int (baseSize - 2 * padding)) (of_int (baseSize - 2 * padding))
                             style weight family;
                img = CanvasImage
                        \<lparr>background = bg, foreground = fg,
                         rfont = buildCanvasFont style weight fittedPx family,
                         rtext = text, atX = baseSize div 2, atY = baseSize div 2\<rparr>;
                a1 = a\<lparr>currentImage := Some img\<rparr>;
                a2 = generateIcons h d a1 img ''text''
            in showSuccess a2 ''Text icon generated successfully!''))"

text \<open>\<^verbatim>\<open>src/script.js\<close> draws at the fixed font \<^verbatim>\<open>bold 300px Inter, Arial, sans-serif\<close>.\<close>

definition generateTextIcon_script :: "host \<Rightarrow> dom \<Rightarrow> app \<Rightarrow> app" where
  "generateTextIcon_script h d a =
     (let text = trim (iconText d);
          fg = textColor d;
          bg = bgColor d
      in if text = [] then showError a ''Please enter text for the icon''
         else if length text > 3 then showError a ''Text must be 3 characters or less''
         else
           (let img = CanvasImage
                        \<lparr>background = bg, foreground = fg,
                         rfont = \<lparr>fstyle = ''normal'', fweight = Some 700, fpx = 300,
                                  ffamily = ''Inter, Arial, sans-serif''\<rparr>,
                         rtext = text, atX = 256, atY = 256\<rparr>;
                a1 = a\<lparr>currentImage := Some img\<rparr>;
                a2 = generateIcons h d a1 img ''text''
            in showSuccess a2 ''Text icon generated successfully!''))"

subsection \<open>File input: \<^verbatim>\<open>validateFile\<close> and \<^verbatim>\<open>processFile\<close>\<close>

definition validTypes :: "string list" where
  "validTypes = [''image/jpeg'', ''image/jpg'', ''image/png'', ''image/bmp'']"

text \<open>\<^verbatim>\<open>part_000\<close>: \<^verbatim>\<open>const maxSize = 50 * 1024 * 1024\<close>.\<close>

definition validateFile :: "app \<Rightarrow> jsfile \<Rightarrow> app \<times> bool" where
  "validateFile a f =
     (let maxSize = 50 * 1024 * 1024
      in if ftype f \<notin> set validTypes
         then (showError a ''Please select a valid image file (JPEG, PNG, BMP)'', False)
         else if fsize f > maxSize
         then (showError a ''File size must be less than 10MB'', False)
         else (a, True))"

text \<open>\<^verbatim>\<open>src/script.js\<close>: \<^verbatim>\<open>const maxSize = 10 * 1024 * 1024; // 10MB\<close>.\<close>

definition validateFile_script :: "app \<Rightarrow> jsfile \<Rightarrow> app \<times> bool" where
  "validateFile_script a f =
     (let maxSize = 10 * 1024 * 1024
      in if ftype f \<notin> set validTypes
         then (showError a ''Please select a valid image file (JPEG, PNG, BMP)'', False)
         else if fsize f > maxSize
         then (showError a ''File size must be less than 10MB'', False)
         else (a, True))"

text \<open>\<^verbatim>\<open>processFile\<close> is the same text in both copies and calls the copy's own
  \<^verbatim>\<open>validateFile\<close>, here the first argument.  A file that cannot be read or decoded
  rejects the promise and lands in the \<^verbatim>\<open>catch\<close>.\<close>

definition processFileWith ::
  "(app \<Rightarrow> jsfile \<Rightarrow> app \<times> bool) \<Rightarrow> host \<Rightarrow> dom \<Rightarrow> app \<Rightarrow> jsfile \<Rightarrow> app" where
  "processFileWith validate h d a f =
     (case validate a f of
        (a', False) \<Rightarrow> a'
      | (a', True) \<Rightarrow>
          (case readFile h f of
             None \<Rightarrow> showError a' ''Failed to process image. Please try a different file.''
           | Some url \<Rightarrow>
               (let img = FileImage url;
                    a1 = a'\<lparr>currentImage := Some img\<rparr>;
                    a2 = generateIcons h d a1 img ''upload''
                in showSuccess a2 ''Icons generated successfully!'')))"

definition processFile :: "host \<Rightarrow> dom \<Rightarrow> app \<Rightarrow> jsfile \<Rightarrow> app" where
  "processFile = processFileWith validateFile"

definition processFile_script :: "host \<Rightarrow> dom \<Rightarrow> app \<Rightarrow> jsfile \<Rightarrow> app" where
  "processFile_script = processFileWith validateFile_script"

subsection \<open>The packager: \<^verbatim>\<open>downloadAllIcons\<close> and \<^verbatim>\<open>generatePWAManifest\<close>\<close>

record manifestIcon =
  mfilename :: string
  msize :: string
  mformat :: string
  mtype :: string

record zipManifest =
  mname :: string
  generated :: string
  total_icons :: nat
  zformat :: string
  zsizes :: "int list"
  zicons :: "manifestIcon list"

datatype zipEntry = Blob string | Json zipManifest

text \<open>A JSZip archive: its entries by name, in the order they were first added.
  \<^verbatim>\<open>zip.file(name, data)\<close> adds an entry, or replaces the entry already stored under
  that name.  Names are flat: a \<^verbatim>\<open>/\<close>, which JSZip reads as a folder path, does not occur
  in the file names built from the formats \<^verbatim>\<open>png\<close>, \<^verbatim>\<open>jpeg\<close> and \<^verbatim>\<open>webp\<close>.\<close>

type_synonym zip = "(string \<times> zipEntry) list"

fun zipFile :: "string \<Rightarrow> zipEntry \<Rightarrow> zip \<Rightarrow> zip" where
  "zipFile name data [] = [(name, data)]"
| "zipFile name data ((k, v) # z) =
     (if k = name then (name, data) # z else (k, v) # zipFile name data z)"

text \<open>The loop that fetches each data URL and adds the blob; a failed fetch throws.\<close>

fun addIcons :: "(string \<Rightarrow> string option) \<Rightarrow> GeneratedIcon list \<Rightarrow> zip \<Rightarrow> zip option" where
  "addIcons fetch [] z = Some z"
| "addIcons fetch (icon # rest) z =
     (case fetch (dataUrl icon) of
        None \<Rightarrow> None
      | Some blob \<Rightarrow> addIcons fetch rest (zipFile (filename icon) (Blob blob) z))"

definition sizeLabel :: "int \<Rightarrow> string" where
  "sizeLabel sz = string_of_int sz @ ''x'' @ string_of_int sz"




record pwaIcon =
  src :: string
  psizes :: string
  ptype :: string
  purpose :: string

record pwaManifest =
  pname :: string
  short_name :: string
  description :: string
  start_url :: string
  display :: string
  orientation :: string
  background_color :: string
  theme_color :: string
  picons :: "pwaIcon list"

definition pwaEntry :: "GeneratedIcon \<Rightarrow> pwaIcon" where
  "pwaEntry icon =
     \<lparr>src = filename icon, psizes = sizeLabel (isize icon),
      ptype = ''image/'' @ iformat icon,
      purpose = (if isize icon \<ge> 192 then ''maskable any'' else ''any'')\<rparr>"

definition generatePWAManifest :: "app \<Rightarrow> app \<times> pwaManifest option" where
  "generatePWAManifest a =
     (if length (generatedIcons a) = 0 then (showError a ''Generate icons first'', None)
      else
        (showSuccess a ''PWA manifest.json generated and downloaded!'',
         Some \<lparr>pname = ''Your PWA Application'', short_name = ''PWA App'',
               description = ''Generated by IconForge - Professional Icon Generator'',
               start_url = ''/'', display = ''standalone'',
               orientation = ''portrait-primary'', background_color = ''#ffffff'',
               theme_color = ''#4F46E5'',
               picons = map pwaEntry (filter (\<lambda>icon. isize icon \<ge> 72) (generatedIcons a))\<rparr>))"

subsection \<open>Settings: \<^verbatim>\<open>storeSettings\<close>, \<^verbatim>\<open>loadPersistedData\<close>, \<^verbatim>\<open>applySettings\<close>\<close>

text \<open>\<^verbatim>\<open>store.put({ key: 'userSettings', ...settings })\<close>; without a database nothing is
  written.\<close>

definition storeSettings :: "app \<Rightarrow> settings \<Rightarrow> app" where
  "storeSettings a s =
     (case db a of None \<Rightarrow> a | Some store \<Rightarrow> a\<lparr>db := Some (store(''userSettings'' \<mapsto> s))\<rparr>)"

definition updateSettings :: "host \<Rightarrow> dom \<Rightarrow> app \<Rightarrow> app" where
  "updateSettings h d a =
     showFeedback
       (storeSettings a
          \<lparr>selectedSizes = Some (getSelectedSizes d),
           outputFormat = Some (getSelectedFormat d),
           stimestamp = dateNow h 0\<rparr>)
       ''Settings saved''"

text \<open>Setting \<^verbatim>\<open>checked = true\<close> on the first radio button with the value sought; the
  browser unchecks the other buttons of the group.\<close>

fun checkRadio :: "string \<Rightarrow> (string \<times> bool) list \<Rightarrow> (string \<times> bool) list" where
  "checkRadio f [] = []"
| "checkRadio f ((v, c) # rs) =
     (if v = f then (v, True) # map (\<lambda>r. (fst r, False)) rs else (v, False) # checkRadio f rs)"

definition applySettings :: "dom \<Rightarrow> settings \<Rightarrow> dom" where
  "applySettings d s =
     (let d1 = (case selectedSizes s of
                  Some chosen \<Rightarrow>
                    if length chosen > 0
                    then d\<lparr>sizeCheckboxes :=
                            map (\<lambda>cb. (fst cb, fst cb \<in> set chosen)) (sizeCheckboxes d)\<rparr>
                    else d
                | None \<Rightarrow> d)
      in case outputFormat s of
           Some f \<Rightarrow>
             if f \<noteq> [] \<and> f \<in> fst ` set (formatRadios d1)
             then d1\<lparr>formatRadios := checkRadio f (formatRadios d1)\<rparr>
             else d1
         | None \<Rightarrow> d1)"

definition loadPersistedData :: "app \<Rightarrow> dom \<Rightarrow> dom" where
  "loadPersistedData a d =
     (case db a of
        None \<Rightarrow> d
      | Some store \<Rightarrow>
          (case store ''userSettings'' of None \<Rightarrow> d | Some s \<Rightarrow> applySettings d s))"

subsection \<open>Concrete drawing surfaces\<close>

text \<open>A surface on which every code unit advances \<open>adv\<close> em and which reports no bounding
  box, so that the 0.8 and 0.2 defaults apply.\<close>

definition monoCtx :: "rat \<Rightarrow> ctx" where
  "monoCtx adv f text =
     \<lparr>width = adv * of_int (fpx f) * of_nat (length text),
      actualBoundingBoxAscent = None, actualBoundingBoxDescent = None\<rparr>"

text \<open>A host, a page and an application state to run the handlers on.\<close>

definition demoHost :: host where
  "demoHost =
     \<lparr>measureText = monoCtx (3 / 5),
      toDataURL = (\<lambda>img sz mime q. ''data:'' @ mime @ '';base64,'' @ string_of_int sz),
      dateNow = (\<lambda>i. 1700000000000 + int i),
      isoNow = ''2024-01-01T00:00:00.000Z'',
      readFile = (\<lambda>f. Some (''data:'' @ ftype f)),
      fetchBlob = (\<lambda>url. Some url),
      jszipLoaded = True\<rparr>"

definition demoDom :: dom where
  "demoDom =
     \<lparr>iconText = [0x20, 0x41, 0x62], textColor = ''#ffffff'', bgColor = ''#4F46E5'',
      fontFamily = None, fontStyle = Some ''italic'', fontWeight = Some [0x34, 0x35, 0x30],
      sizeCheckboxes = [(16, True), (32, False), (72, True), (192, True)],
      formatRadios = [(''png'', True), (''jpeg'', False), (''webp'', False)]\<rparr>"

definition demoApp :: app where
  "demoApp = \<lparr>currentImage = None, generatedIcons = [], db = Some Map.empty, notifications = []\<rparr>"

section \<open>Properties of the text rasterizer\<close>

subsection \<open>The bisection loop\<close>



























text \<open>
  \<^bold>\<open>Claim C9\<close>: \<^verbatim>\<open>fitTextToCanvas\<close> always returns after 14 probes, and returns the
  minimum 12 when no size from 12 to 420 fits.  The loop has no \<open>lo \<le> hi\<close> test: once
  size 12 has failed the bounds are 12 and 11, and the remaining probes measure size 11.
  Sixty code units of 0.6 em each are 432 wide at size 12 and 396 wide at size 11; no size
  from 12 up fits the box of 416, and the function returns 11.  Three code units of 12 em
  each, a text \<^verbatim>\<open>generateTextIcon\<close> accepts, measure the same.
\<close>

theorem fitTextToCanvas_returns_11:
  "fitTextToCanvas (monoCtx (3 / 5)) (replicate 60 0x4D) 416 416 ''normal'' (Some 700) ''monospace'' = 11
   \<and> probeFits (monoCtx (3 / 5)) (replicate 60 0x4D) 416 416 ''normal'' (Some 700) ''monospace'' p
       = (p \<le> 11)
   \<and> fitTextToCanvas (monoCtx 12) [0xFDFD, 0xFDFD, 0xFDFD] 416 416 ''normal'' (Some 700) ''Inter''
       = 11"
proof (intro conjI)
  show "fitTextToCanvas (monoCtx 12) [0xFDFD, 0xFDFD, 0xFDFD] 416 416 ''normal'' (Some 700) ''Inter''
       = 11"
    by code_simp
  show "fitTextToCanvas (monoCtx (3 / 5)) (replicate 60 0x4D) 416 416 ''normal'' (Some 700) ''monospace'' = 11"
    by code_simp
  have "(of_int p :: rat) * 36 \<le> 416 \<longleftrightarrow> p \<le> 11"
  proof -
    have "(of_int p :: rat) * 36 \<le> 416 \<longleftrightarrow> (of_int (p * 36) :: rat) \<le> of_int 416" by simp
    also have "\<dots> \<longleftrightarrow> p * 36 \<le> 416" by (simp only: of_int_le_iff)
    also have "\<dots> \<longleftrightarrow> p \<le> 11" by linarith
    finally show ?thesis .
  qed
  moreover have "p \<le> 11 \<Longrightarrow> (of_int p :: rat) \<le> 416" by simp
  ultimately show "probeFits (monoCtx (3 / 5)) (replicate 60 0x4D) 416 416 ''normal'' (Some 700) ''monospace'' p
       = (p \<le> 11)"
    by (auto simp: probeFits_def monoCtx_def Let_def algebra_simps)
qed

subsection \<open>Font weight and input validation\<close>

lemma fields_showError [simp]:
  "currentImage (showError a m) = currentImage a"
  "generatedIcons (showError a m) = generatedIcons a"
  "db (showError a m) = db a"
  "notifications (showError a m) = notifications a @ [(m, ''error'')]"
  by (simp_all add: showError_def showNotification_def)

lemma fields_showSuccess [simp]:
  "currentImage (showSuccess a m) = currentImage a"
  "generatedIcons (showSuccess a m) = generatedIcons a"
  "db (showSuccess a m) = db a"
  "notifications (showSuccess a m) = notifications a @ [(m, ''success'')]"
  by (simp_all add: showSuccess_def showNotification_def)

lemma fields_generateIcons [simp]:
  "currentImage (generateIcons h d a img ty) = currentImage a"
  "db (generateIcons h d a img ty) = db a"
  "notifications (generateIcons h d a img ty) = notifications a"
  by (simp_all add: generateIcons_def Let_def)


lemma js_round_div100: "js_round (of_int w / 100) = (w + 50) div 100"
proof -
  have e: "(of_int w :: rat) / 100 + 1 / 2 = of_int (w + 50) / of_int 100" by simp
  have "\<lfloor>(of_int (w + 50) :: rat) / of_int 100\<rfloor> = (w + 50) div 100"
    by (rule floor_divide_of_int_eq)
  then show ?thesis by (simp only: js_round_def e)
qed

lemma div100_bounds:
  fixes w :: int
  shows "100 * ((w + 50) div 100) \<le> w + 50" and "w + 50 < 100 * ((w + 50) div 100) + 100"
  by linarith+

lemma clamp_nearest:
  fixes w k :: int
  assumes k: "1 \<le> k" "k \<le> 9"
  shows "\<bar>min 900 (max 100 ((w + 50) div 100 * 100)) - w\<bar> \<le> \<bar>100 * k - w\<bar>"
proof -
  define q where "q = (w + 50) div 100"
  have q: "100 * q \<le> w + 50" "w + 50 < 100 * q + 100"
    unfolding q_def by (rule div100_bounds)+
  consider "q < 1" | "9 < q" | "1 \<le> q" "q \<le> 9" by linarith
  then have "\<bar>min 900 (max 100 (q * 100)) - w\<bar> \<le> \<bar>100 * k - w\<bar>"
  proof cases
    case 1
    then have "min 900 (max 100 (q * 100)) = 100" by simp
    moreover from 1 q have "w < 50" by linarith
    ultimately show ?thesis using k by linarith
  next
    case 2
    then have "min 900 (max 100 (q * 100)) = 900" by simp
    moreover from 2 q have "950 \<le> w" by linarith
    ultimately show ?thesis using k by linarith
  next
    case 3
    then have m: "min 900 (max 100 (q * 100)) = 100 * q" by simp
    consider "k \<le> q - 1" | "k = q" | "q + 1 \<le> k" by linarith
    then show ?thesis
    proof cases
      case 1
      with q show ?thesis unfolding m by linarith
    next
      case 2
      then show ?thesis unfolding m by simp
    next
      case 3
      with q show ?thesis unfolding m by linarith
    qed
  qed
  then show ?thesis unfolding q_def .
qed

lemma clamp_hundreds:
  fixes w :: int
  shows "min 900 (max 100 ((w + 50) div 100 * 100)) \<in> {100, 200, 300, 400, 500, 600, 700, 800, 900}"
proof -
  define q where "q = (w + 50) div 100"
  consider "q < 1" | "9 < q" | "q = 1" | "q = 2" | "q = 3" | "q = 4" | "q = 5" | "q = 6"
    | "q = 7" | "q = 8" | "q = 9" by linarith
  then have "min 900 (max 100 (q * 100)) \<in> {100, 200, 300, 400, 500, 600, 700, 800, 900}"
    by cases simp_all
  then show ?thesis unfolding q_def .
qed

lemma currentImage_showNotification [simp]:
  "currentImage (showNotification a m t) = currentImage a"
  by (simp add: showNotification_def)

text \<open>
  \<^bold>\<open>Claim C8\<close>.  When the weight control parses to a number \<open>w\<close> and the text is
  accepted, the weight the rasterizer uses is \<open>min(900, max(100, round(w / 100) * 100))\<close>:
  one of 100, 200, ..., 900, and no multiple of 100 in that range is nearer to \<open>w\<close>.  It is
  the weight of the font the text is drawn with, and the only weight the measurement is
  asked about: a surface that measures fonts of this weight alike gives the same result.
\<close>
theorem generateTextIcon_fontWeight:
  "parseInt10 (orDefault (fontWeight d) [0x37, 0x30, 0x30]) = Some w
   \<and> trim (iconText d) \<noteq> [] \<and> length (trim (iconText d)) \<le> 3 \<longrightarrow>
   (let used = min 900 (max 100 (js_round (of_int w / 100) * 100))
    in used \<in> {100, 200, 300, 400, 500, 600, 700, 800, 900}
       \<and> (\<forall>k \<in> {1..9}. \<bar>used - w\<bar> \<le> \<bar>100 * k - w\<bar>)
       \<and> (\<exists>rs. currentImage (generateTextIcon h d a) = Some (CanvasImage rs)
                \<and> fweight (rfont rs) = Some used)
       \<and> (\<forall>c'. (\<forall>f t. fweight f = Some used \<longrightarrow> c' f t = measureText h f t)
                \<longrightarrow> generateTextIcon (h\<lparr>measureText := c'\<rparr>) d a = generateTextIcon h d a))"
proof (intro impI, elim conjE)
  assume pw: "parseInt10 (orDefault (fontWeight d) [0x37, 0x30, 0x30]) = Some w"
    and ne: "trim (iconText d) \<noteq> []" and le: "length (trim (iconText d)) \<le> 3"
  define used where "used = min 900 (max 100 (js_round (of_int w / 100) * 100))"
  have u: "used = min 900 (max 100 ((w + 50) div 100 * 100))"
    unfolding used_def js_round_div100 ..
  have cw: "clampFontWeight (Some w) = Some used"
    by (simp add: clampFontWeight_def used_def)
  have c1: "used \<in> {100, 200, 300, 400, 500, 600, 700, 800, 900}"
    unfolding u by (rule clamp_hundreds)
  have c2: "\<forall>k \<in> {1..9}. \<bar>used - w\<bar> \<le> \<bar>100 * k - w\<bar>"
    unfolding u using clamp_nearest[of _ w] by simp
  have c3: "\<exists>rs. currentImage (generateTextIcon h d a) = Some (CanvasImage rs)
                \<and> fweight (rfont rs) = Some used"
    using ne le pw cw
    by (simp add: generateTextIcon_def Let_def showSuccess_def buildCanvasFont_def)
  have c4: "\<forall>c'. (\<forall>f t. fweight f = Some used \<longrightarrow> c' f t = measureText h f t)
                \<longrightarrow> generateTextIcon (h\<lparr>measureText := c'\<rparr>) d a = generateTextIcon h d a"
  proof (intro allI impI)
    fix c' assume agree: "\<forall>f t. fweight f = Some used \<longrightarrow> c' f t = measureText h f t"
    have "probeFits c' tx maxW maxH style (Some used) family
          = probeFits (measureText h) tx maxW maxH style (Some used) family"
      for tx maxW maxH style family
      by (rule ext) (simp add: probeFits_def agree)
    then have fit: "fitTextToCanvas c' tx maxW maxH style (Some used) family
          = fitTextToCanvas (measureText h) tx maxW maxH style (Some used) family"
      for tx maxW maxH style family
      by (simp add: fitTextToCanvas_def)
    have gi: "generateIcons (h\<lparr>measureText := c'\<rparr>) d x img ty = generateIcons h d x img ty"
      for x img ty
    proof -
      have "emitIcons (h\<lparr>measureText := c'\<rparr>) img ty fmt i szs acc = emitIcons h img ty fmt i szs acc"
        for fmt i szs acc
        by (induction szs arbitrary: i acc) (simp_all add: makeIcon_def)
      then show ?thesis by (simp add: generateIcons_def)
    qed
    show "generateTextIcon (h\<lparr>measureText := c'\<rparr>) d a = generateTextIcon h d a"
      using pw cw by (simp add: generateTextIcon_def Let_def fit gi)
  qed
  from c1 c2 c3 c4 show "let used = min 900 (max 100 (js_round (of_int w / 100) * 100))
    in used \<in> {100, 200, 300, 400, 500, 600, 700, 800, 900}
       \<and> (\<forall>k \<in> {1..9}. \<bar>used - w\<bar> \<le> \<bar>100 * k - w\<bar>)
       \<and> (\<exists>rs. currentImage (generateTextIcon h d a) = Some (CanvasImage rs)
                \<and> fweight (rfont rs) = Some used)
       \<and> (\<forall>c'. (\<forall>f t. fweight f = Some used \<longrightarrow> c' f t = measureText h f t)
                \<longrightarrow> generateTextIcon (h\<lparr>measureText := c'\<rparr>) d a = generateTextIcon h d a)"
    unfolding Let_def used_def by blast
qed

theorem generateTextIcon_fontWeight_witness:
  "parseInt10 (orDefault (fontWeight demoDom) [0x37, 0x30, 0x30]) = Some 450
   \<and> trim (iconText demoDom) = [0x41, 0x62]
   \<and> min 900 (max 100 (js_round (of_int 450 / 100) * 100)) = 500
   \<and> (\<exists>rs. currentImage (generateTextIcon demoHost demoDom demoApp) = Some (CanvasImage rs)
            \<and> fweight (rfont rs) = Some 500)"
proof -
  have p: "parseInt10 (orDefault (fontWeight demoDom) [0x37, 0x30, 0x30]) = Some 450"
    by code_simp
  have t: "trim (iconText demoDom) = [0x41, 0x62]" by code_simp
  have r: "min 900 (max 100 (js_round (of_int 450 / 100) * 100)) = (500::int)"
    by (simp add: js_round_def)
  from generateTextIcon_fontWeight[of demoDom 450 demoHost demoApp] p t r
  show ?thesis by (simp add: Let_def js_round_def)
qed

text \<open>
  \<^bold>\<open>Claim C5\<close>.  In both copies, \<^verbatim>\<open>generateTextIcon\<close> on a text that is empty after
  trimming or longer than three code units returns normally with one error notification
  added and nothing else changed: the current image and the generated icons are as before,
  and neither the rasterizer nor the emitter is consulted.  On a trimmed text of one to
  three code units it rasterizes that text and makes the raster the current image.
\<close>
theorem generateTextIcon_validation:
  "(trim (iconText d) = [] \<or> 3 < length (trim (iconText d)) \<longrightarrow>
      generateTextIcon h d a
        = showError a (if trim (iconText d) = [] then ''Please enter text for the icon''
                       else ''Text must be 3 characters or less'')
      \<and> generateTextIcon_script h d a = generateTextIcon h d a
      \<and> currentImage (generateTextIcon h d a) = currentImage a
      \<and> generatedIcons (generateTextIcon h d a) = generatedIcons a
      \<and> (\<exists>msg. notifications (generateTextIcon h d a) = notifications a @ [(msg, ''error'')]))
   \<and> (trim (iconText d) \<noteq> [] \<and> length (trim (iconText d)) \<le> 3 \<longrightarrow>
      (\<exists>rs. currentImage (generateTextIcon h d a) = Some (CanvasImage rs)
            \<and> rtext rs = trim (iconText d)
            \<and> fpx (rfont rs)
                = max 12 (fitTextToCanvas (measureText h) (trim (iconText d)) 416 416
                            (fstyle (rfont rs)) (fweight (rfont rs)) (ffamily (rfont rs))))
      \<and> (\<exists>rs. currentImage (generateTextIcon_script h d a) = Some (CanvasImage rs)
            \<and> rtext rs = trim (iconText d)))"
proof (intro conjI impI)
  assume rej: "trim (iconText d) = [] \<or> 3 < length (trim (iconText d))"
  show e: "generateTextIcon h d a
        = showError a (if trim (iconText d) = [] then ''Please enter text for the icon''
                       else ''Text must be 3 characters or less'')"
    using rej by (auto simp: generateTextIcon_def Let_def)
  show "generateTextIcon_script h d a = generateTextIcon h d a"
    unfolding e using rej by (auto simp: generateTextIcon_script_def Let_def)
  show "currentImage (generateTextIcon h d a) = currentImage a" unfolding e by simp
  show "generatedIcons (generateTextIcon h d a) = generatedIcons a" unfolding e by simp
  show "\<exists>msg. notifications (generateTextIcon h d a) = notifications a @ [(msg, ''error'')]"
    unfolding e by simp
next
  assume acc: "trim (iconText d) \<noteq> [] \<and> length (trim (iconText d)) \<le> 3"
  then show "\<exists>rs. currentImage (generateTextIcon h d a) = Some (CanvasImage rs)
            \<and> rtext rs = trim (iconText d)
            \<and> fpx (rfont rs)
                = max 12 (fitTextToCanvas (measureText h) (trim (iconText d)) 416 416
                            (fstyle (rfont rs)) (fweight (rfont rs)) (ffamily (rfont rs)))"
    by (simp add: generateTextIcon_def Let_def buildCanvasFont_def)
  from acc show "\<exists>rs. currentImage (generateTextIcon_script h d a) = Some (CanvasImage rs)
            \<and> rtext rs = trim (iconText d)"
    by (simp add: generateTextIcon_script_def Let_def)
qed

theorem generateTextIcon_validation_witness:
  "3 < length (trim (iconText (demoDom\<lparr>iconText := [0x41, 0x42, 0x43, 0x44]\<rparr>)))
   \<and> generateTextIcon demoHost (demoDom\<lparr>iconText := [0x41, 0x42, 0x43, 0x44]\<rparr>) demoApp
       = showError demoApp ''Text must be 3 characters or less''
   \<and> length (trim (iconText demoDom)) = 2
   \<and> (\<exists>rs. currentImage (generateTextIcon demoHost demoDom demoApp) = Some (CanvasImage rs)
            \<and> rtext rs = [0x41, 0x62])"
proof -
  have t4: "trim (iconText (demoDom\<lparr>iconText := [0x41, 0x42, 0x43, 0x44]\<rparr>)) = [0x41, 0x42, 0x43, 0x44]"
    by code_simp
  have t2: "trim (iconText demoDom) = [0x41, 0x62]" by code_simp
  from generateTextIcon_validation[of "demoDom\<lparr>iconText := [0x41, 0x42, 0x43, 0x44]\<rparr>" demoHost demoApp]
       generateTextIcon_validation[of demoDom demoHost demoApp] t4 t2
  show ?thesis by auto
qed


section \<open>Properties of file validation\<close>

text \<open>
  \<^bold>\<open>Claim C6\<close>: \<^verbatim>\<open>validateFile\<close> accepts a file exactly when its MIME type is one of
  the four listed and its size is at most \<open>10 * 1024 * 1024\<close> bytes.  The copy in
  \<^verbatim>\<open>part_000\<close> sets \<^verbatim>\<open>maxSize\<close> to \<open>50 * 1024 * 1024\<close> while its message still says
  10MB: a PNG of 20 MiB is accepted there and reaches the emitter, and is rejected by the
  copy in \<^verbatim>\<open>src/script.js\<close>.
\<close>
theorem validateFile_accepts_20MB:
  "validateFile a \<lparr>ftype = ''image/png'', fsize = 20 * 1024 * 1024, fname = ''large.png''\<rparr>
     = (a, True)
   \<and> validateFile_script a \<lparr>ftype = ''image/png'', fsize = 20 * 1024 * 1024, fname = ''large.png''\<rparr>
     = (showError a ''File size must be less than 10MB'', False)
   \<and> generatedIcons
        (processFile demoHost demoDom demoApp
           \<lparr>ftype = ''image/png'', fsize = 20 * 1024 * 1024, fname = ''large.png''\<rparr>) \<noteq> []"
  by (simp add: validateFile_def validateFile_script_def validTypes_def processFile_def
      processFileWith_def demoHost_def demoDom_def demoApp_def generateIcons_def
      getSelectedSizes_def Let_def)

text \<open>What each copy of \<^verbatim>\<open>validateFile\<close> accepts, and that a rejected file stops
  \<^verbatim>\<open>processFile\<close> at the error notification.\<close>

lemma validateFile_script_iff:
  "snd (validateFile_script a f)
     \<longleftrightarrow> ftype f \<in> {''image/jpeg'', ''image/jpg'', ''image/png'', ''image/bmp''}
         \<and> fsize f \<le> 10 * 1024 * 1024"
  by (auto simp: validateFile_script_def validTypes_def Let_def)

lemma validateFile_iff:
  "snd (validateFile a f)
     \<longleftrightarrow> ftype f \<in> {''image/jpeg'', ''image/jpg'', ''image/png'', ''image/bmp''}
         \<and> fsize f \<le> 50 * 1024 * 1024"
  by (auto simp: validateFile_def validTypes_def Let_def)

lemma processFile_script_rejected:
  "\<not> snd (validateFile_script a f) \<Longrightarrow>
     \<exists>msg. processFile_script h d a f = showError a msg"
  by (auto simp: processFile_script_def processFileWith_def validateFile_script_def Let_def)

lemma processFile_rejected:
  "\<not> snd (validateFile a f) \<Longrightarrow> \<exists>msg. processFile h d a f = showError a msg"
  by (auto simp: processFile_def processFileWith_def validateFile_def Let_def)

section \<open>Properties of the emitter\<close>






section \<open>Properties of the packager\<close>

text \<open>
  \<^bold>\<open>Claim C4\<close>.  For a non-empty list of generated icons, the \<open>icons\<close> array of the
  manifest \<^verbatim>\<open>generatePWAManifest\<close> produces names exactly the icons of size 72 or more, in
  order; an entry's purpose is \<^verbatim>\<open>maskable any\<close> exactly when its icon has size 192 or
  more, and \<^verbatim>\<open>any\<close> exactly when it has not.
\<close>
theorem generatePWAManifest_icons:
  "generatedIcons a \<noteq> [] \<longrightarrow>
     (\<exists>m. snd (generatePWAManifest a) = Some m
          \<and> map src (picons m) = map filename (filter (\<lambda>icon. 72 \<le> isize icon) (generatedIcons a))
          \<and> length (picons m) = length (filter (\<lambda>icon. 72 \<le> isize icon) (generatedIcons a))
          \<and> (\<forall>i < length (picons m).
                (purpose (picons m ! i) = ''maskable any''
                   \<longleftrightarrow> 192 \<le> isize (filter (\<lambda>icon. 72 \<le> isize icon) (generatedIcons a) ! i))
                \<and> (purpose (picons m ! i) = ''any''
                   \<longleftrightarrow> isize (filter (\<lambda>icon. 72 \<le> isize icon) (generatedIcons a) ! i) < 192)))"
  by (auto simp: generatePWAManifest_def pwaEntry_def comp_def)

theorem generatePWAManifest_icons_witness:
  "generatedIcons
     (demoApp\<lparr>generatedIcons :=
        map (makeIcon demoHost (FileImage ''data:image/png'') ''upload'' ''png'' 0) [16, 72, 192]\<rparr>)
     \<noteq> []
   \<and> (\<exists>m. snd (generatePWAManifest
               (demoApp\<lparr>generatedIcons :=
                  map (makeIcon demoHost (FileImage ''data:image/png'') ''upload'' ''png'' 0)
                      [16, 72, 192]\<rparr>)) = Some m
          \<and> map src (picons m) = [''icon-72x72.png'', ''icon-192x192.png'']
          \<and> purpose (picons m ! 0) = ''any''
          \<and> purpose (picons m ! 1) = ''maskable any'')"
proof -
  let ?mk = "makeIcon demoHost (FileImage ''data:image/png'') ''upload'' ''png'' 0"
  let ?a = "demoApp\<lparr>generatedIcons := map ?mk [16, 72, 192]\<rparr>"
  have ne: "generatedIcons ?a \<noteq> []" by simp
  have fl: "filter (\<lambda>icon. 72 \<le> isize icon) (generatedIcons ?a) = [?mk 72, ?mk 192]"
    by (simp add: makeIcon_def)
  have fn: "filename (?mk 72) = ''icon-72x72.png''" "filename (?mk 192) = ''icon-192x192.png''"
    by code_simp+
  have sz: "isize (?mk 72) = 72" "isize (?mk 192) = 192" by (simp_all add: makeIcon_def)
  from generatePWAManifest_icons[of ?a] ne obtain m where
    m: "snd (generatePWAManifest ?a) = Some m"
       "map src (picons m) = map filename (filter (\<lambda>icon. 72 \<le> isize icon) (generatedIcons ?a))"
       "length (picons m) = length (filter (\<lambda>icon. 72 \<le> isize icon) (generatedIcons ?a))"
       "\<forall>i < length (picons m).
                (purpose (picons m ! i) = ''maskable any''
                   \<longleftrightarrow> 192 \<le> isize (filter (\<lambda>icon. 72 \<le> isize icon) (generatedIcons ?a) ! i))
                \<and> (purpose (picons m ! i) = ''any''
                   \<longleftrightarrow> isize (filter (\<lambda>icon. 72 \<le> isize icon) (generatedIcons ?a) ! i) < 192)"
    by blast
  from m(3) have len: "length (picons m) = 2" unfolding fl by simp
  from m(2) have srcs: "map src (picons m) = [''icon-72x72.png'', ''icon-192x192.png'']"
    unfolding fl by (simp add: fn)
  from m(4)[rule_format, of 0] len have p0: "purpose (picons m ! 0) = ''any''"
    unfolding fl by (simp add: sz)
  from m(4)[rule_format, of 1] len have p1: "purpose (picons m ! 1) = ''maskable any''"
    unfolding fl by (simp add: sz)
  show ?thesis by (intro conjI exI[of _ m]) (rule ne m(1) srcs p0 p1)+
qed

section \<open>Properties of the settings\<close>

lemma loadPersistedData_storeSettings:
  "db a \<noteq> None \<Longrightarrow> loadPersistedData (storeSettings a s) d = applySettings d s"
  by (auto simp: loadPersistedData_def storeSettings_def)

lemma find_checkRadio:
  "f \<in> fst ` set rs \<Longrightarrow> find snd (checkRadio f rs) = Some (f, True)"
proof (induction rs)
  case Nil
  then show ?case by simp
next
  case (Cons r rs)
  obtain v c where r: "r = (v, c)" by (cases r)
  show ?case
  proof (cases "v = f")
    case True
    then show ?thesis by (simp add: r)
  next
    case False
    with Cons.prems have "f \<in> fst ` set rs" by (auto simp: r)
    from Cons.IH[OF this] False show ?thesis by (simp add: r)
  qed
qed

lemma getSelectedFormat_checkRadio:
  "f \<in> fst ` set (formatRadios d) \<Longrightarrow>
     getSelectedFormat (d\<lparr>formatRadios := checkRadio f (formatRadios d)\<rparr>) = f"
  by (simp add: getSelectedFormat_def find_checkRadio)

lemma map_fst_checkRadio: "map fst (checkRadio f rs) = map fst rs"
  by (induction rs) (auto simp: comp_def)

lemma checked_after_apply:
  "map fst (filter snd (map (\<lambda>cb. (fst cb, fst cb \<in> set chosen)) cbs))
     = filter (\<lambda>v. v \<in> set chosen) (map fst cbs)"
  by (induction cbs) simp_all

lemma getSelectedSizes_applied:
  "sizeCheckboxes d' = map (\<lambda>cb. (fst cb, fst cb \<in> set chosen)) cbs \<Longrightarrow>
     getSelectedSizes d' = filter (\<lambda>v. v \<in> set chosen) (map fst cbs)"
  by (simp add: getSelectedSizes_def checked_after_apply)

lemma stored_settings_applied:
  assumes "db a \<noteq> None" and "selectedSizes s = Some chosen" and "chosen \<noteq> []"
    and "outputFormat s = Some f" and "f \<noteq> []" and "f \<in> fst ` set (formatRadios d)"
  shows "loadPersistedData (storeSettings a s) d
           = d\<lparr>sizeCheckboxes := map (\<lambda>cb. (fst cb, fst cb \<in> set chosen)) (sizeCheckboxes d),
               formatRadios := checkRadio f (formatRadios d)\<rparr>"
  using assms by (simp add: loadPersistedData_storeSettings applySettings_def Let_def)

text \<open>
  \<^bold>\<open>Claim C7\<close>, as amended.  For every settings record whose list of selected sizes is
  not empty and whose output format is not empty and is the value of one of the format
  radio buttons, written by \<^verbatim>\<open>storeSettings\<close> into an open database: after
  \<^verbatim>\<open>loadPersistedData\<close> (which calls \<^verbatim>\<open>applySettings\<close>) the page has the same
  checkboxes, each checked exactly when its value is in the stored list, so the sizes
  selected are the stored ones that the page offers, and the selected format is the stored
  format.
\<close>
theorem settings_roundtrip:
  "db a \<noteq> None \<and> selectedSizes s = Some chosen \<and> chosen \<noteq> []
   \<and> outputFormat s = Some f \<and> f \<noteq> [] \<and> f \<in> fst ` set (formatRadios d) \<longrightarrow>
     map fst (sizeCheckboxes (loadPersistedData (storeSettings a s) d)) = map fst (sizeCheckboxes d)
     \<and> (\<forall>cb \<in> set (sizeCheckboxes (loadPersistedData (storeSettings a s) d)).
           snd cb \<longleftrightarrow> fst cb \<in> set chosen)
     \<and> set (getSelectedSizes (loadPersistedData (storeSettings a s) d))
         = set chosen \<inter> fst ` set (sizeCheckboxes d)
     \<and> getSelectedFormat (loadPersistedData (storeSettings a s) d) = f"
proof (intro impI, elim conjE)
  assume h: "db a \<noteq> None" "selectedSizes s = Some chosen" "chosen \<noteq> []"
    "outputFormat s = Some f" "f \<noteq> []" "f \<in> fst ` set (formatRadios d)"
  note ap = stored_settings_applied[OF h]
  have c1: "map fst (sizeCheckboxes (loadPersistedData (storeSettings a s) d))
            = map fst (sizeCheckboxes d)"
    unfolding ap by (simp add: comp_def)
  have c2: "\<forall>cb \<in> set (sizeCheckboxes (loadPersistedData (storeSettings a s) d)).
           snd cb \<longleftrightarrow> fst cb \<in> set chosen"
    unfolding ap by auto
  have c3: "set (getSelectedSizes (loadPersistedData (storeSettings a s) d))
         = set chosen \<inter> fst ` set (sizeCheckboxes d)"
  proof -
    have "getSelectedSizes (loadPersistedData (storeSettings a s) d)
          = filter (\<lambda>v. v \<in> set chosen) (map fst (sizeCheckboxes d))"
      unfolding ap by (rule getSelectedSizes_applied) simp
    then show ?thesis by auto
  qed
  have c4: "getSelectedFormat (loadPersistedData (storeSettings a s) d) = f"
    unfolding ap using h(6) by (simp add: getSelectedFormat_def find_checkRadio)
  from c1 c2 c3 c4 show "map fst (sizeCheckboxes (loadPersistedData (storeSettings a s) d)) = map fst (sizeCheckboxes d)
     \<and> (\<forall>cb \<in> set (sizeCheckboxes (loadPersistedData (storeSettings a s) d)).
           snd cb \<longleftrightarrow> fst cb \<in> set chosen)
     \<and> set (getSelectedSizes (loadPersistedData (storeSettings a s) d))
         = set chosen \<inter> fst ` set (sizeCheckboxes d)
     \<and> getSelectedFormat (loadPersistedData (storeSettings a s) d) = f"
    by (intro conjI)
qed

theorem settings_roundtrip_witness:
  "db demoApp \<noteq> None
   \<and> ''jpeg'' \<in> fst ` set (formatRadios demoDom)
   \<and> set (getSelectedSizes
            (loadPersistedData
               (storeSettings demoApp
                  \<lparr>selectedSizes = Some [32, 192], outputFormat = Some ''jpeg'', stimestamp = 0\<rparr>)
               demoDom)) = {32, 192}
   \<and> getSelectedFormat
        (loadPersistedData
           (storeSettings demoApp
              \<lparr>selectedSizes = Some [32, 192], outputFormat = Some ''jpeg'', stimestamp = 0\<rparr>)
           demoDom) = ''jpeg''"
proof -
  have a: "db demoApp \<noteq> None" by (simp add: demoApp_def)
  have r: "''jpeg'' \<in> fst ` set (formatRadios demoDom)" by (simp add: demoDom_def)
  have i: "set [32, 192] \<inter> fst ` set (sizeCheckboxes demoDom) = {32, 192 :: int}"
    by (auto simp: demoDom_def)
  from settings_roundtrip[of demoApp
         "\<lparr>selectedSizes = Some [32, 192], outputFormat = Some ''jpeg'', stimestamp = 0\<rparr>"
         "[32, 192]" "''jpeg''" demoDom] a r i
  show ?thesis by simp
qed

text \<open>
  The claim as first stated covers every settings record.  With every box unchecked
  \<^verbatim>\<open>updateSettings\<close> stores the empty list; loading it on the page with its boxes at
  their defaults leaves the defaults checked, so the selection read back is not the one
  stored.
\<close>

theorem settings_roundtrip_empty_counterexample:
  "getSelectedSizes (demoDom\<lparr>sizeCheckboxes := [(16, False), (32, False), (72, False), (192, False)]\<rparr>)
     = []
   \<and> getSelectedSizes
        (loadPersistedData
           (updateSettings demoHost
              (demoDom\<lparr>sizeCheckboxes := [(16, False), (32, False), (72, False), (192, False)]\<rparr>)
              demoApp)
           demoDom) = [16, 72, 192]"
  by (simp add: getSelectedSizes_def loadPersistedData_def updateSettings_def storeSettings_def
      showFeedback_def showNotification_def applySettings_def getSelectedFormat_def
      demoDom_def demoApp_def Let_def)

text \<open>
  \<^bold>\<open>Claim C10\<close>.  \<^verbatim>\<open>applySettings\<close> writes the size checkboxes only for a non-empty
  stored list: with an empty (or absent) list every checkbox keeps its state, and with an
  absent output format the radio buttons keep theirs.  Hence storing the empty list and
  loading it again leaves the page's selection as it was, rather than empty.
\<close>
theorem applySettings_keeps_checkboxes:
  "(selectedSizes s = Some [] \<or> selectedSizes s = None \<longrightarrow>
      sizeCheckboxes (applySettings d s) = sizeCheckboxes d
      \<and> getSelectedSizes (applySettings d s) = getSelectedSizes d)
   \<and> (selectedSizes s = Some chosen \<and> chosen \<noteq> [] \<longrightarrow>
      sizeCheckboxes (applySettings d s)
        = map (\<lambda>cb. (fst cb, fst cb \<in> set chosen)) (sizeCheckboxes d))
   \<and> (outputFormat s = None \<longrightarrow> formatRadios (applySettings d s) = formatRadios d)
   \<and> (selectedSizes s = Some [] \<and> db a \<noteq> None \<longrightarrow>
      getSelectedSizes (loadPersistedData (storeSettings a s) d) = getSelectedSizes d)"
  by (auto simp: applySettings_def getSelectedSizes_def loadPersistedData_storeSettings Let_def
      split: option.splits)

theorem applySettings_keeps_checkboxes_witness:
  "selectedSizes \<lparr>selectedSizes = Some [], outputFormat = None, stimestamp = 0\<rparr> = Some []
   \<and> db demoApp \<noteq> None
   \<and> getSelectedSizes
        (loadPersistedData
           (storeSettings demoApp \<lparr>selectedSizes = Some [], outputFormat = None, stimestamp = 0\<rparr>)
           demoDom) = [16, 72, 192]
   \<and> formatRadios (applySettings demoDom
                     \<lparr>selectedSizes = Some [], outputFormat = None, stimestamp = 0\<rparr>)
      = [(''png'', True), (''jpeg'', False), (''webp'', False)]
   \<and> sizeCheckboxes (applySettings demoDom
                       \<lparr>selectedSizes = Some [32], outputFormat = None, stimestamp = 0\<rparr>)
      = [(16, False), (32, True), (72, False), (192, False)]"
proof -
  have a: "db demoApp \<noteq> None" by (simp add: demoApp_def)
  have g: "getSelectedSizes demoDom = [16, 72, 192]" by code_simp
  have f: "formatRadios demoDom = [(''png'', True), (''jpeg'', False), (''webp'', False)]"
    by (simp add: demoDom_def)
  have c: "sizeCheckboxes demoDom = [(16, True), (32, False), (72, True), (192, True)]"
    by (simp add: demoDom_def)
  from applySettings_keeps_checkboxes
         [of "\<lparr>selectedSizes = Some [], outputFormat = None, stimestamp = 0\<rparr>" demoDom "[]" demoApp]
       applySettings_keeps_checkboxes
         [of "\<lparr>selectedSizes = Some [32], outputFormat = None, stimestamp = 0\<rparr>" demoDom "[32]"
             demoApp]
       a g f c
  show ?thesis by simp
qed

lemma find_snd_value:
  "find snd rs = Some r \<Longrightarrow> fst r \<in> fst ` set rs"
  by (induction rs) (auto split: if_splits)

text \<open>The round trip as the page performs it: what \<^verbatim>\<open>updateSettings\<close> saves from a page
  with some size and a named format selected comes back on a page with the same controls.\<close>

lemma updateSettings_roundtrip:
  assumes "db a \<noteq> None" and "getSelectedSizes d0 \<noteq> []"
    and "find snd (formatRadios d0) = Some r" and "fst r \<noteq> []"
    and "map fst (sizeCheckboxes d) = map fst (sizeCheckboxes d0)"
    and "map fst (formatRadios d) = map fst (formatRadios d0)"
  shows "set (getSelectedSizes (loadPersistedData (updateSettings h d0 a) d))
           = set (getSelectedSizes d0)"
    and "getSelectedFormat (loadPersistedData (updateSettings h d0 a) d) = getSelectedFormat d0"
proof -
  let ?s = "\<lparr>selectedSizes = Some (getSelectedSizes d0),
             outputFormat = Some (getSelectedFormat d0), stimestamp = dateNow h 0\<rparr>"
  have l: "loadPersistedData (updateSettings h d0 a) d = loadPersistedData (storeSettings a ?s) d"
    by (simp add: updateSettings_def showFeedback_def showNotification_def
        loadPersistedData_def)
  have f: "getSelectedFormat d0 = fst r" using assms(3) by (simp add: getSelectedFormat_def)
  have "fst r \<in> fst ` set (formatRadios d0)" by (rule find_snd_value[OF assms(3)])
  also have "fst ` set (formatRadios d0) = fst ` set (formatRadios d)"
    using arg_cong[OF assms(6), of set] by simp
  finally have m: "getSelectedFormat d0 \<in> fst ` set (formatRadios d)" by (simp add: f)
  have ne: "getSelectedFormat d0 \<noteq> []" using assms(4) by (simp add: f)
  note ap = stored_settings_applied[of a ?s "getSelectedSizes d0" "getSelectedFormat d0" d,
              OF assms(1) _ assms(2) _ ne m, simplified]
  have sub: "set (getSelectedSizes d0) \<subseteq> fst ` set (sizeCheckboxes d)"
    using arg_cong[OF assms(5), of set] by (auto simp: getSelectedSizes_def)
  have "getSelectedSizes (loadPersistedData (updateSettings h d0 a) d)
        = filter (\<lambda>v. v \<in> set (getSelectedSizes d0)) (map fst (sizeCheckboxes d))"
    unfolding l ap by (rule getSelectedSizes_applied) simp
  with sub show "set (getSelectedSizes (loadPersistedData (updateSettings h d0 a) d))
           = set (getSelectedSizes d0)"
    by auto
  show "getSelectedFormat (loadPersistedData (updateSettings h d0 a) d) = getSelectedFormat d0"
    unfolding l ap using m by (simp add: getSelectedFormat_def find_checkRadio)
qed

section \<open>Properties of the archive\<close>

subsection \<open>File names determine sizes\<close>













subsection \<open>The archive built by \<^verbatim>\<open>downloadAllIcons\<close>\<close>



lemma addIcons_fails:
  "addIcons fetch ics z = None \<longleftrightarrow> (\<exists>icon \<in> set ics. fetch (dataUrl icon) = None)"
  by (induction ics arbitrary: z) (auto split: option.splits)




end
